theory Spec2Isabelle
  imports Main "HOL-Library.Sublist" "HOL-Library.AList"
begin

section \<open>Decoded JSON values and the Python operations the analysis applies to them\<close>

text \<open>
  The analysis part of \<^verbatim>\<open>analyze_cloudtrail_events.py\<close> works on what \<^verbatim>\<open>json.load\<close> and
  \<^verbatim>\<open>json.loads\<close> return: \<^verbatim>\<open>None\<close>, booleans, numbers, strings, lists and dicts with string
  keys. An object is kept as the list of its members in document order; a lookup takes the
  binding that \<open>map_of\<close> finds (a decoded dict has each key once). Numbers are integers: the
  program only tests a number for truth, and never stores one.
\<close>

datatype json =
    JNull
  | JBool bool
  | JNum int
  | JStr string
  | JArr "json list"
  | JObj "(string \<times> json) list"

text \<open>
  The exceptions the analysis can meet. \<open>KeyError\<close> and \<open>JSONDecodeError\<close> are the two that
  the extractors catch for one record; the others leave the extractor and end the run.
  \<open>NotAStr\<close> is not a Python exception: it marks the edge of the model. The source annotates
  its facts as \<^verbatim>\<open>str\<close> (\<^verbatim>\<open>Dict[str, Tuple[str, str]]\<close>, \<^verbatim>\<open>Dict[str, str]\<close>,
  \<^verbatim>\<open>Dict[str, List[str]]\<close>) without checking it; where a record would put a value of
  another type into a fact, the model stops with \<open>NotAStr\<close> and says nothing further.
\<close>

datatype exn =
    KeyError
  | JSONDecodeError
  | AttributeError
  | TypeError
  | IndexError
  | FileNotFoundError
  | NotAStr

definition py_bind :: "exn + 'a \<Rightarrow> ('a \<Rightarrow> exn + 'b) \<Rightarrow> exn + 'b" where
  "py_bind m f = (case m of Inl e \<Rightarrow> Inl e | Inr x \<Rightarrow> f x)"

text \<open>Truth value testing (\<^verbatim>\<open>if not x\<close>, \<^verbatim>\<open>a and b\<close>).\<close>

fun truthy :: "json \<Rightarrow> bool" where
  "truthy JNull = False"
| "truthy (JBool b) = b"
| "truthy (JNum n) = (n \<noteq> 0)"
| "truthy (JStr s) = (s \<noteq> [])"
| "truthy (JArr xs) = (xs \<noteq> [])"
| "truthy (JObj kvs) = (kvs \<noteq> [])"

text \<open>\<^verbatim>\<open>x.get(key, default)\<close>: only a dict has the method.\<close>

fun py_get_default :: "json \<Rightarrow> string \<Rightarrow> json \<Rightarrow> exn + json" where
  "py_get_default (JObj kvs) k d = Inr (case map_of kvs k of None \<Rightarrow> d | Some v \<Rightarrow> v)"
| "py_get_default _ k d = Inl AttributeError"

text \<open>\<^verbatim>\<open>x.get(key)\<close>, whose default is \<^verbatim>\<open>None\<close>.\<close>

definition py_get :: "json \<Rightarrow> string \<Rightarrow> exn + json" where
  "py_get x k = py_get_default x k JNull"

text \<open>
  \<^verbatim>\<open>x[key]\<close> with a string key: a dict raises \<^verbatim>\<open>KeyError\<close> for a missing key; a list or a
  string wants an integer index, and the other values are not subscriptable.
\<close>

fun py_item :: "json \<Rightarrow> string \<Rightarrow> exn + json" where
  "py_item (JObj kvs) k = (case map_of kvs k of None \<Rightarrow> Inl KeyError | Some v \<Rightarrow> Inr v)"
| "py_item _ k = Inl TypeError"

text \<open>
  \<^verbatim>\<open>x[0]\<close>: the first element of a list, the first character of a string; a dict is asked
  for the key \<^verbatim>\<open>0\<close>, which a decoded object (string keys) never has.
\<close>

fun py_first :: "json \<Rightarrow> exn + json" where
  "py_first (JArr (x # xs)) = Inr x"
| "py_first (JArr []) = Inl IndexError"
| "py_first (JStr (c # cs)) = Inr (JStr [c])"
| "py_first (JStr []) = Inl IndexError"
| "py_first (JObj kvs) = Inl KeyError"
| "py_first _ = Inl TypeError"

text \<open>
  \<^verbatim>\<open>for tag in x\<close>: the elements of a list, the characters of a string, the keys of a dict;
  the other values are not iterable.
\<close>

fun py_iter :: "json \<Rightarrow> exn + json list" where
  "py_iter (JArr xs) = Inr xs"
| "py_iter (JStr s) = Inr (map (\<lambda>c. JStr [c]) s)"
| "py_iter (JObj kvs) = Inr (map (\<lambda>kv. JStr (fst kv)) kvs)"
| "py_iter _ = Inl TypeError"

text \<open>\<^verbatim>\<open>x in s\<close> for a set \<open>s\<close> of strings: a list or a dict is unhashable.\<close>

fun py_in_set :: "json \<Rightarrow> string set \<Rightarrow> exn + bool" where
  "py_in_set (JStr s) A = Inr (s \<in> A)"
| "py_in_set (JArr xs) A = Inl TypeError"
| "py_in_set (JObj kvs) A = Inl TypeError"
| "py_in_set _ A = Inr False"

section \<open>Raw audit records\<close>

text \<open>
  An element of an event file is a dict whose \<^verbatim>\<open>CloudTrailEvent\<close> member holds the event
  body as JSON text. The extractors only ever apply \<^verbatim>\<open>json.loads(event['CloudTrailEvent'])\<close>
  to it, so a record is modelled by the outcome of that expression: the key is missing, the
  text does not decode, or it decodes to a value.
\<close>

datatype event =
    NoBody
  | BadBody
  | Body json

fun loads_CloudTrailEvent :: "event \<Rightarrow> exn + json" where
  "loads_CloudTrailEvent NoBody = Inl KeyError"
| "loads_CloudTrailEvent BadBody = Inl JSONDecodeError"
| "loads_CloudTrailEvent (Body j) = Inr j"

text \<open>
  The shape shared by the three extractors:
  \<^verbatim>\<open>for event in events: try: ... except (KeyError, json.JSONDecodeError): continue\<close>.
  The body of the \<^verbatim>\<open>try\<close> either leaves the accumulated mapping as it is, updates it, or
  raises. The two caught exceptions drop the record; they are raised before the mapping is
  touched, so the mapping is the one from before the record.
\<close>

definition except_continue :: "(event \<Rightarrow> 's \<Rightarrow> exn + 's) \<Rightarrow> event \<Rightarrow> 's \<Rightarrow> exn + 's" where
  "except_continue body event s =
     (case body event s of
        Inl KeyError \<Rightarrow> Inr s
      | Inl JSONDecodeError \<Rightarrow> Inr s
      | Inl e \<Rightarrow> Inl e
      | Inr s' \<Rightarrow> Inr s')"

fun for_events :: "(event \<Rightarrow> 's \<Rightarrow> exn + 's) \<Rightarrow> event list \<Rightarrow> 's \<Rightarrow> exn + 's" where
  "for_events body [] s = Inr s"
| "for_events body (event # events) s =
     (case except_continue body event s of
        Inl e \<Rightarrow> Inl e
      | Inr s' \<Rightarrow> for_events body events s')"

section \<open>extract_run_instances_data\<close>

definition ENVIRONMENT_TAG :: string where
  "ENVIRONMENT_TAG = ''gitpod.dev/environment-id''"

text \<open>
  \<^verbatim>\<open>next((tag['value'] for tag in tags if tag.get('key') == 'gitpod.dev/environment-id'), None)\<close>:
  the generator is lazy, so the tags after the first match are never looked at.
\<close>

fun first_environment_tag :: "json list \<Rightarrow> exn + json" where
  "first_environment_tag [] = Inr JNull"
| "first_environment_tag (tag # tags) =
     py_bind (py_get tag ''key'') (\<lambda>k.
       if k = JStr ENVIRONMENT_TAG then py_item tag ''value''
       else first_environment_tag tags)"

text \<open>
  The \<^verbatim>\<open>try\<close> body up to the final test: \<open>Inr None\<close> is a \<^verbatim>\<open>continue\<close> or a failed final
  test, \<open>Inr (Some (instance_id, profile_arn, environment_id))\<close> reaches the assignment.
  (\<^verbatim>\<open>profile_id\<close> is read by a second \<^verbatim>\<open>get\<close> on the same dict and never used.)
\<close>

definition run_instances_fields :: "json \<Rightarrow> exn + (json \<times> json \<times> json) option" where
  "run_instances_fields cloudtrail_event =
     py_bind (py_get cloudtrail_event ''responseElements'') (\<lambda>response_elements.
     if \<not> truthy response_elements then Inr None else
     py_bind (py_get response_elements ''instancesSet'') (\<lambda>instances_set.
     if \<not> truthy instances_set then Inr None else
     py_bind (py_get instances_set ''items'') (\<lambda>items.
     if \<not> truthy items then Inr None else
     py_bind (py_first items) (\<lambda>instance.
     if \<not> truthy instance then Inr None else
     py_bind (py_get instance ''instanceId'') (\<lambda>instance_id.
     if \<not> truthy instance_id then Inr None else
     py_bind (py_get instance ''iamInstanceProfile'') (\<lambda>iam_profile.
     if \<not> truthy iam_profile then Inr None else
     py_bind (py_get iam_profile ''arn'') (\<lambda>profile_arn.
     py_bind (py_get_default instance ''tagSet'' (JObj [])) (\<lambda>tag_set.
     py_bind (py_get_default tag_set ''items'' (JArr [])) (\<lambda>tags.
     py_bind (py_iter tags) (\<lambda>tag_list.
     py_bind (first_environment_tag tag_list) (\<lambda>environment_id.
     if truthy instance_id \<and> truthy profile_arn \<and> truthy environment_id
     then Inr (Some (instance_id, profile_arn, environment_id))
     else Inr None)))))))))))"

text \<open>
  \<^verbatim>\<open>instance_data[instance_id] = (profile_arn, environment_id)\<close>. A Python dict keeps a key
  at the place of its first insertion and replaces its value, which is \<open>AList.update\<close>.
  A list or a dict as key is unhashable.
\<close>

type_synonym instance_data = "(string \<times> (string \<times> string)) list"

fun store_instance :: "json \<times> json \<times> json \<Rightarrow> instance_data \<Rightarrow> exn + instance_data" where
  "store_instance (JArr xs, profile_arn, environment_id) instance_data = Inl TypeError"
| "store_instance (JObj kvs, profile_arn, environment_id) instance_data = Inl TypeError"
| "store_instance (JStr instance_id, JStr profile_arn, JStr environment_id) instance_data =
     Inr (AList.update instance_id (profile_arn, environment_id) instance_data)"
| "store_instance _ instance_data = Inl NotAStr"

definition run_instances_body :: "event \<Rightarrow> instance_data \<Rightarrow> exn + instance_data" where
  "run_instances_body event instance_data =
     py_bind (loads_CloudTrailEvent event) (\<lambda>cloudtrail_event.
     py_bind (run_instances_fields cloudtrail_event) (\<lambda>fields.
       case fields of
         None \<Rightarrow> Inr instance_data
       | Some f \<Rightarrow> store_instance f instance_data))"

definition extract_run_instances_data :: "event list \<Rightarrow> exn + instance_data" where
  "extract_run_instances_data events = for_events run_instances_body events []"

section \<open>find_assume_role_events\<close>

type_synonym assume_role_data = "(string \<times> string) list"

fun store_session :: "json \<Rightarrow> json \<Rightarrow> assume_role_data \<Rightarrow> exn + assume_role_data" where
  "store_session (JArr xs) access_key_id assume_role_data = Inl TypeError"
| "store_session (JObj kvs) access_key_id assume_role_data = Inl TypeError"
| "store_session (JStr session_id) (JStr access_key_id) assume_role_data =
     Inr (AList.update session_id access_key_id assume_role_data)"
| "store_session _ _ assume_role_data = Inl NotAStr"

definition assume_role_body ::
  "string set \<Rightarrow> event \<Rightarrow> assume_role_data \<Rightarrow> exn + assume_role_data" where
  "assume_role_body profile_arns event assume_role_data =
     py_bind (loads_CloudTrailEvent event) (\<lambda>cloudtrail_event.
     py_bind (py_item cloudtrail_event ''eventName'') (\<lambda>event_name.
     if event_name \<noteq> JStr ''AssumeRole'' then Inr assume_role_data else
     py_bind (py_item cloudtrail_event ''requestParameters'') (\<lambda>request_parameters.
     py_bind (py_item request_parameters ''roleArn'') (\<lambda>role_arn.
     py_bind (py_in_set role_arn profile_arns) (\<lambda>known.
     if \<not> known then Inr assume_role_data else
     py_bind (py_item cloudtrail_event ''responseElements'') (\<lambda>response_elements.
     py_bind (py_item response_elements ''credentials'') (\<lambda>credentials.
     py_bind (py_item credentials ''sessionToken'') (\<lambda>session_id.
     py_bind (py_item credentials ''accessKeyId'') (\<lambda>access_key_id.
       store_session session_id access_key_id assume_role_data)))))))))"

definition find_assume_role_events :: "event list \<Rightarrow> string set \<Rightarrow> exn + assume_role_data" where
  "find_assume_role_events events profile_arns =
     for_events (assume_role_body profile_arns) events []"

section \<open>find_get_parameter_events\<close>

text \<open>
  \<^verbatim>\<open>parameter_data\<close> is a \<^verbatim>\<open>defaultdict(list)\<close>: a tenant gets a key with its first
  \<^verbatim>\<open>append\<close>. Nothing reads the order of its keys, so it is a map from tenant to list.
\<close>

type_synonym parameter_data = "string \<rightharpoonup> string list"

text \<open>
  \<^verbatim>\<open>for env_id in environment_ids: if env_id in parameter_name:
  parameter_data[env_id].append(parameter_name)\<close>.
  Each tenant of the set is visited once and its own list alone is appended to, so the order
  in which Python walks the set does not show in the mapping: the result is given per tenant.
  \<^verbatim>\<open>in\<close> is the substring test when the name is a string. With a name that is a list or a
  dict it is a membership test that cannot raise, and a match would append a name that is
  not a string; with any other name it raises as soon as the set has a member to test.
\<close>

fun append_parameter :: "string set \<Rightarrow> json \<Rightarrow> parameter_data \<Rightarrow> exn + parameter_data" where
  "append_parameter environment_ids (JStr parameter_name) parameter_data =
     Inr (\<lambda>env_id.
       if env_id \<in> environment_ids \<and> sublist env_id parameter_name
       then Some ((case parameter_data env_id of None \<Rightarrow> [] | Some names \<Rightarrow> names)
                  @ [parameter_name])
       else parameter_data env_id)"
| "append_parameter environment_ids (JArr xs) parameter_data =
     (if \<exists>env_id \<in> environment_ids. JStr env_id \<in> set xs then Inl NotAStr
      else Inr parameter_data)"
| "append_parameter environment_ids (JObj kvs) parameter_data =
     (if \<exists>env_id \<in> environment_ids. env_id \<in> fst ` set kvs then Inl NotAStr
      else Inr parameter_data)"
| "append_parameter environment_ids _ parameter_data =
     (if environment_ids = {} then Inr parameter_data else Inl TypeError)"

definition get_parameter_body ::
  "string set \<Rightarrow> event \<Rightarrow> parameter_data \<Rightarrow> exn + parameter_data" where
  "get_parameter_body environment_ids event parameter_data =
     py_bind (loads_CloudTrailEvent event) (\<lambda>cloudtrail_event.
     py_bind (py_item cloudtrail_event ''eventName'') (\<lambda>event_name.
     if event_name \<noteq> JStr ''GetParameter'' then Inr parameter_data else
     py_bind (py_item cloudtrail_event ''requestParameters'') (\<lambda>request_parameters.
     py_bind (py_item request_parameters ''name'') (\<lambda>parameter_name.
       append_parameter environment_ids parameter_name parameter_data))))"

definition find_get_parameter_events :: "event list \<Rightarrow> string set \<Rightarrow> exn + parameter_data" where
  "find_get_parameter_events events environment_ids =
     for_events (get_parameter_body environment_ids) events Map.empty"

section \<open>analyze\<close>

text \<open>
  What \<^verbatim>\<open>analyze\<close> prints after the line of equals signs: a block for each flagged
  instance, listing the names under ``Mismatched GetParameter calls:'', and one closing
  summary, which depends on \<^verbatim>\<open>count\<close> being zero.
\<close>

record verdict =
  v_instance_id :: string
  v_profile_arn :: string
  v_environment_id :: string
  v_param_names :: "string list"

datatype summary =
    NOT_EXPLOITED
  | Found nat

text \<open>
  \<^verbatim>\<open>any(env_id in param_name and env_id != environment_id
       for param_name in param_names for env_id in environment_ids)\<close>
\<close>

definition has_mismatch :: "string set \<Rightarrow> string \<Rightarrow> string list \<Rightarrow> bool" where
  "has_mismatch environment_ids environment_id param_names =
     (\<exists>param_name \<in> set param_names. \<exists>env_id \<in> environment_ids.
        sublist env_id param_name \<and> env_id \<noteq> environment_id)"

text \<open>The loop over \<^verbatim>\<open>instance_data.items()\<close>, with \<^verbatim>\<open>count\<close> and the printed blocks as state.\<close>

fun report_loop ::
  "string set \<Rightarrow> parameter_data \<Rightarrow> instance_data \<Rightarrow> nat \<times> verdict list \<Rightarrow> nat \<times> verdict list"
where
  "report_loop environment_ids parameter_data [] (count, printed) = (count, printed)"
| "report_loop environment_ids parameter_data
     ((instance_id, (profile_arn, environment_id)) # rest) (count, printed) =
     (case parameter_data environment_id of
        None \<Rightarrow> report_loop environment_ids parameter_data rest (count, printed)
      | Some param_names \<Rightarrow>
          if has_mismatch environment_ids environment_id param_names
          then report_loop environment_ids parameter_data rest
                 (count + 1,
                  printed @ [\<lparr>v_instance_id = instance_id, v_profile_arn = profile_arn,
                              v_environment_id = environment_id,
                              v_param_names = param_names\<rparr>])
          else report_loop environment_ids parameter_data rest (count, printed))"

definition correlate ::
  "instance_data \<Rightarrow> string set \<Rightarrow> parameter_data \<Rightarrow> verdict list \<times> summary" where
  "correlate instance_data environment_ids parameter_data =
     (case report_loop environment_ids parameter_data instance_data (0, []) of
        (count, printed) \<Rightarrow> (printed, if count = 0 then NOT_EXPLOITED else Found count))"

definition exploited :: "verdict list \<times> summary \<Rightarrow> bool" where
  "exploited result = (snd result \<noteq> NOT_EXPLOITED)"

text \<open>
  The event files. \<^verbatim>\<open>load_json_file\<close> opens the file (\<^verbatim>\<open>FileNotFoundError\<close> when there
  is none) and decodes it; the result is annotated \<^verbatim>\<open>List[dict]\<close>.
\<close>

datatype event_file =
    Unparsable
  | Events "event list"

type_synonym file_store = "string \<rightharpoonup> event_file"

definition GET_PARAMETER_FILE :: string where
  "GET_PARAMETER_FILE = ''get_parameter_events.json''"

definition RUN_INSTANCES_FILE :: string where
  "RUN_INSTANCES_FILE = ''run_instances_events.json''"

definition ASSUME_ROLE_FILE :: string where
  "ASSUME_ROLE_FILE = ''assume_role_events.json''"

definition load_json_file :: "file_store \<Rightarrow> string \<Rightarrow> exn + event list" where
  "load_json_file fs filename =
     (case fs filename of
        None \<Rightarrow> Inl FileNotFoundError
      | Some Unparsable \<Rightarrow> Inl JSONDecodeError
      | Some (Events events) \<Rightarrow> Inr events)"


definition environment_ids_of :: "instance_data \<Rightarrow> string set" where
  "environment_ids_of instance_data = set (map (\<lambda>kv. snd (snd kv)) instance_data)"


section \<open>Reading a record, and records to run the extractors on\<close>

text \<open>
  \<open>get_parameter_name event = Some n\<close> says that the record is a secret-read record for the
  name \<open>n\<close>: its body is a dict whose \<^verbatim>\<open>eventName\<close> is \<^verbatim>\<open>GetParameter\<close> and whose
  \<^verbatim>\<open>requestParameters.name\<close> is the string \<open>n\<close>.
\<close>

definition get_parameter_name :: "event \<Rightarrow> string option" where
  "get_parameter_name event =
     (case event of
        Body b \<Rightarrow>
          (if py_item b ''eventName'' = Inr (JStr ''GetParameter'') then
             (case py_bind (py_item b ''requestParameters'') (\<lambda>rp. py_item rp ''name'') of
                Inr (JStr n) \<Rightarrow> Some n
              | _ \<Rightarrow> None)
           else None)
      | _ \<Rightarrow> None)"

text \<open>The list a tenant has in the index; a tenant without a key has none.\<close>

definition names_of :: "parameter_data \<Rightarrow> string \<Rightarrow> string list" where
  "names_of parameter_data env_id =
     (case parameter_data env_id of None \<Rightarrow> [] | Some names \<Rightarrow> names)"


text \<open>The test that the loop of \<^verbatim>\<open>analyze\<close> applies to an item, and the block it prints.\<close>

definition flagged ::
  "string set \<Rightarrow> parameter_data \<Rightarrow> string \<times> string \<times> string \<Rightarrow> bool" where
  "flagged E P item =
     (case P (snd (snd item)) of
        None \<Rightarrow> False
      | Some param_names \<Rightarrow> has_mismatch E (snd (snd item)) param_names)"

definition verdict_of :: "parameter_data \<Rightarrow> string \<times> string \<times> string \<Rightarrow> verdict" where
  "verdict_of P item =
     \<lparr>v_instance_id = fst item, v_profile_arn = fst (snd item),
      v_environment_id = snd (snd item), v_param_names = names_of P (snd (snd item))\<rparr>"


text \<open>Well-formed records of the three kinds, as CloudTrail writes them.\<close>

definition get_parameter_record :: "string \<Rightarrow> event" where
  "get_parameter_record n =
     Body (JObj [(''eventName'', JStr ''GetParameter''),
                 (''requestParameters'', JObj [(''name'', JStr n)])])"

definition instance_item :: "string \<Rightarrow> string \<Rightarrow> string \<Rightarrow> json" where
  "instance_item i arn env =
     JObj [(''instanceId'', JStr i),
           (''iamInstanceProfile'', JObj [(''arn'', JStr arn), (''id'', JStr ''AIPA'')]),
           (''tagSet'', JObj [(''items'',
              JArr [JObj [(''key'', JStr ''Name''), (''value'', JStr ''runner'')],
                    JObj [(''key'', JStr ENVIRONMENT_TAG), (''value'', JStr env)]])])]"

definition launch_body :: "string \<Rightarrow> json \<Rightarrow> json" where
  "launch_body event_name item =
     JObj [(''eventName'', JStr event_name),
           (''responseElements'', JObj [(''instancesSet'',
              JObj [(''items'', JArr [item])])])]"

definition launch_record :: "string \<Rightarrow> json \<Rightarrow> event" where
  "launch_record event_name item = Body (launch_body event_name item)"









text \<open>
  The fact that the extractor stores for a record, when it stores one: the record reaches
  the assignment with three strings.
\<close>

fun as_str :: "json \<Rightarrow> string option" where
  "as_str (JStr s) = Some s"
| "as_str _ = None"

definition launch_fact :: "event \<Rightarrow> (string \<times> string \<times> string) option" where
  "launch_fact event =
     (case event of
        Body b \<Rightarrow>
          (case run_instances_fields b of
             Inr (Some f) \<Rightarrow>
               Option.bind (as_str (fst f)) (\<lambda>i.
               Option.bind (as_str (fst (snd f))) (\<lambda>p.
               Option.bind (as_str (snd (snd f))) (\<lambda>e. Some (i, p, e))))
           | _ \<Rightarrow> None)
      | _ \<Rightarrow> None)"

text \<open>What the loop does to the mapping for one record that it gets past.\<close>

definition store_fact ::
  "(string \<times> string \<times> string) option \<Rightarrow> instance_data \<Rightarrow> instance_data" where
  "store_fact found instance_data =
     (case found of
        None \<Rightarrow> instance_data
      | Some f \<Rightarrow> AList.update (fst f) (snd f) instance_data)"

text \<open>
  The three event files of a run, and an \<^verbatim>\<open>AssumeRole\<close> record whose
  \<^verbatim>\<open>requestParameters\<close> is \<^verbatim>\<open>null\<close>.
\<close>

definition event_files :: "event list \<Rightarrow> event list \<Rightarrow> event list \<Rightarrow> file_store" where
  "event_files run_instances_events assume_role_events get_parameter_events =
     [RUN_INSTANCES_FILE \<mapsto> Events run_instances_events,
      ASSUME_ROLE_FILE \<mapsto> Events assume_role_events,
      GET_PARAMETER_FILE \<mapsto> Events get_parameter_events]"


section \<open>The record loop\<close>

lemma py_bind_simps [simp]:
  "py_bind (Inl e) f = Inl e"
  "py_bind (Inr x) f = f x"
  by (simp_all add: py_bind_def)

lemma for_events_append:
  "for_events body (xs @ ys) s = py_bind (for_events body xs s) (for_events body ys)"
  by (induction xs arbitrary: s) (simp_all split: sum.splits)

lemma for_events_snoc:
  "for_events body (xs @ [x]) s = py_bind (for_events body xs s) (except_continue body x)"
  by (simp add: for_events_append py_bind_def split: sum.splits)



section \<open>The secret-access index\<close>

lemma get_parameter_name_body:
  assumes "get_parameter_name ev = Some n"
  shows "get_parameter_body E ev P = append_parameter E (JStr n) P"
proof -
  from assms obtain b where ev: "ev = Body b"
    by (cases ev) (simp_all add: get_parameter_name_def)
  from assms ev have name: "py_item b ''eventName'' = Inr (JStr ''GetParameter'')"
    by (simp add: get_parameter_name_def split: if_splits)
  from assms ev name obtain rp where rp: "py_item b ''requestParameters'' = Inr rp"
    by (cases "py_item b ''requestParameters''") (simp_all add: get_parameter_name_def)
  from assms ev name rp have n: "py_item rp ''name'' = Inr (JStr n)"
    by (simp add: get_parameter_name_def split: sum.splits json.splits)
  show ?thesis
    by (simp add: get_parameter_body_def ev name rp n)
qed

lemma get_parameter_name_record [simp]:
  "get_parameter_name (get_parameter_record n) = Some n"
  by (simp add: get_parameter_name_def get_parameter_record_def)






lemma find_get_parameter_events_Nil [simp]:
  "find_get_parameter_events [] E = Inr Map.empty"
  by (simp add: find_get_parameter_events_def)

lemma find_get_parameter_events_snoc:
  assumes "find_get_parameter_events events E = Inr P"
    and "get_parameter_name ev = Some n"
  shows "find_get_parameter_events (events @ [ev]) E =
           Inr (\<lambda>t. if t \<in> E \<and> sublist t n then Some (names_of P t @ [n]) else P t)"
proof -
  have "get_parameter_body E ev P =
          Inr (\<lambda>t. if t \<in> E \<and> sublist t n then Some (names_of P t @ [n]) else P t)"
    by (simp add: get_parameter_name_body [OF assms(2)] names_of_def fun_eq_iff)
  then have "except_continue (get_parameter_body E) ev P =
          Inr (\<lambda>t. if t \<in> E \<and> sublist t n then Some (names_of P t @ [n]) else P t)"
    by (simp add: except_continue_def)
  then show ?thesis
    using assms(1) by (simp add: find_get_parameter_events_def for_events_snoc)
qed

lemma find_one_get_parameter_record:
  "find_get_parameter_events [get_parameter_record n] E =
     Inr (\<lambda>t. if t \<in> E \<and> sublist t n then Some [n] else None)"
  using find_get_parameter_events_snoc [of "[]" E Map.empty "get_parameter_record n" n]
  by (simp add: names_of_def fun_eq_iff)

lemma sublist_envA [simp]: "sublist ''envA'' ''/envA/envB/s''"
  by (simp add: sublist_Cons_right)

lemma sublist_envB [simp]: "sublist ''envB'' ''/envA/envB/s''"
  by (simp add: sublist_Cons_right)



text \<open>
  C8. Running the extractor on a sequence extended at its end with a secret-read record
  whose name contains a tenant of interest returns the index of the sequence with that name
  appended at the end of the tenant's list; every list of the old index is a prefix of the
  list the same tenant has in the new one, and no key is lost.
\<close>

theorem index_monotonic:
  assumes "find_get_parameter_events events E = Inr P"
    and "get_parameter_name ev = Some n"
    and "t \<in> E" and "sublist t n"
  shows "\<exists>P'. find_get_parameter_events (events @ [ev]) E = Inr P'
           \<and> P' t = Some (names_of P t @ [n])
           \<and> (\<forall>t'. prefix (names_of P t') (names_of P' t'))
           \<and> dom P \<subseteq> dom P'"
proof -
  let ?P' = "\<lambda>t. if t \<in> E \<and> sublist t n then Some (names_of P t @ [n]) else P t"
  have run: "find_get_parameter_events (events @ [ev]) E = Inr ?P'"
    by (rule find_get_parameter_events_snoc [OF assms(1,2)])
  have here: "?P' t = Some (names_of P t @ [n])"
    using assms(3,4) by simp
  have kept: "\<forall>t'. prefix (names_of P t') (names_of ?P' t')"
    by (simp add: names_of_def)
  have keys: "dom P \<subseteq> dom ?P'"
    by (auto simp: dom_def)
  from run here kept keys show ?thesis by blast
qed

theorem index_monotonic_witness:
  "\<exists>P'. find_get_parameter_events
           ([get_parameter_record ''/envA/envB/s''] @ [get_parameter_record ''/envA/envB/s''])
           {''envA'', ''envB''} = Inr P'
     \<and> P' ''envA'' = Some ([''/envA/envB/s''] @ [''/envA/envB/s''])"
proof -
  let ?P = "\<lambda>t. if t \<in> {''envA'', ''envB''} \<and> sublist t ''/envA/envB/s''
                then Some [''/envA/envB/s''] else None"
  have "names_of ?P ''envA'' = [''/envA/envB/s'']"
    by (simp add: names_of_def)
  with index_monotonic
    [OF find_one_get_parameter_record get_parameter_name_record,
     of "''envA''" "{''envA'', ''envB''}" "''/envA/envB/s''" "''/envA/envB/s''"]
  show ?thesis by auto
qed

text \<open>
  C6. When the name of a secret-read record contains two different tenants of interest,
  the record adds the name once to the list of each of the two.
\<close>

theorem index_fan_out:
  assumes "find_get_parameter_events events E = Inr P"
    and "get_parameter_name ev = Some n"
    and "t1 \<in> E" and "t2 \<in> E" and "t1 \<noteq> t2"
    and "sublist t1 n" and "sublist t2 n"
  shows "\<exists>P'. find_get_parameter_events (events @ [ev]) E = Inr P'
           \<and> P' t1 = Some (names_of P t1 @ [n])
           \<and> P' t2 = Some (names_of P t2 @ [n])"
  using find_get_parameter_events_snoc [OF assms(1,2)] assms(3,4,6,7) by simp

theorem index_fan_out_witness:
  "\<exists>P'. find_get_parameter_events ([] @ [get_parameter_record ''/envA/envB/s''])
           {''envA'', ''envB''} = Inr P'
     \<and> P' ''envA'' = Some [''/envA/envB/s'']
     \<and> P' ''envB'' = Some [''/envA/envB/s'']"
  using index_fan_out
    [OF find_get_parameter_events_Nil get_parameter_name_record,
     of "''envA''" "{''envA'', ''envB''}" "''envB''" "''/envA/envB/s''"]
  by (simp add: names_of_def)

section \<open>The correlator\<close>

lemma report_loop_closed:
  "report_loop E P D (count, printed) =
     (count + length (filter (flagged E P) D),
      printed @ map (verdict_of P) (filter (flagged E P) D))"
proof (induction D arbitrary: count printed)
  case Nil
  show ?case by simp
next
  case (Cons item D)
  obtain i p e where item: "item = (i, (p, e))" by (cases item) auto
  show ?case
  proof (cases "P e")
    case None
    then show ?thesis using Cons.IH by (simp add: item flagged_def)
  next
    case (Some names)
    then show ?thesis
      using Cons.IH by (simp add: item flagged_def verdict_of_def names_of_def)
  qed
qed

lemma correlate_closed:
  "correlate D E P =
     (map (verdict_of P) (filter (flagged E P) D),
      if filter (flagged E P) D = [] then NOT_EXPLOITED
      else Found (length (filter (flagged E P) D)))"
  by (simp add: correlate_def report_loop_closed)

lemma flagged_iff:
  "flagged E P (i, (p, e)) =
     (\<exists>names. P e = Some names \<and> (\<exists>n \<in> set names. \<exists>t \<in> E. t \<noteq> e \<and> sublist t n))"
  by (cases "P e") (auto simp: flagged_def has_mismatch_def)

lemma verdict_of_fields:
  "(v_instance_id (verdict_of P item) = i \<and> v_profile_arn (verdict_of P item) = p
      \<and> v_environment_id (verdict_of P item) = e) = (item = (i, (p, e)))"
  by (cases item) (auto simp: verdict_of_def)

lemma scenario_2_flags:
  "correlate [(''i-1'', (''r1'', ''envA'')), (''i-2'', (''r2'', ''envB''))]
     {''envA'', ''envB''} [''envA'' \<mapsto> [''/envA/ok'', ''/envB/secret1'']] =
   ([\<lparr>v_instance_id = ''i-1'', v_profile_arn = ''r1'', v_environment_id = ''envA'',
       v_param_names = [''/envA/ok'', ''/envB/secret1'']\<rparr>], Found 1)"
  by (simp add: correlate_def has_mismatch_def sublist_Cons_right)

text \<open>
  C1. An item \<open>(i, (p, e))\<close> of the launch-fact mapping has a block in the report exactly
  when its tenant \<open>e\<close> has a list in the index and some name of that list contains the
  identifier of another tenant of the launch facts; the closing summary says ``exploited''
  exactly when the report has at least one block.
\<close>

theorem correlate_flags_exactly:
  "((\<exists>v \<in> set (fst (correlate D (environment_ids_of D) P)).
        v_instance_id v = i \<and> v_profile_arn v = p \<and> v_environment_id v = e)
      = ((i, (p, e)) \<in> set D
          \<and> (\<exists>names. P e = Some names
               \<and> (\<exists>n \<in> set names. \<exists>t \<in> environment_ids_of D. t \<noteq> e \<and> sublist t n))))
   \<and> (exploited (correlate D (environment_ids_of D) P)
      = (fst (correlate D (environment_ids_of D) P) \<noteq> []))"
proof
  let ?E = "environment_ids_of D"
  have "(\<exists>v \<in> set (fst (correlate D ?E P)).
           v_instance_id v = i \<and> v_profile_arn v = p \<and> v_environment_id v = e)
        = (\<exists>item \<in> set D. flagged ?E P item \<and> item = (i, (p, e)))"
    by (auto simp: correlate_closed verdict_of_fields)
  also have "\<dots> = ((i, (p, e)) \<in> set D \<and> flagged ?E P (i, (p, e)))"
    by auto
  finally show "(\<exists>v \<in> set (fst (correlate D ?E P)).
           v_instance_id v = i \<and> v_profile_arn v = p \<and> v_environment_id v = e)
        = ((i, (p, e)) \<in> set D
          \<and> (\<exists>names. P e = Some names
               \<and> (\<exists>n \<in> set names. \<exists>t \<in> ?E. t \<noteq> e \<and> sublist t n)))"
    by (simp only: flagged_iff)
next
  show "exploited (correlate D (environment_ids_of D) P)
      = (fst (correlate D (environment_ids_of D) P) \<noteq> [])"
    by (simp add: exploited_def correlate_closed)
qed

theorem correlate_flags_exactly_witness:
  "(\<exists>v \<in> set (fst (correlate [(''i-1'', (''r1'', ''envA'')), (''i-2'', (''r2'', ''envB''))]
                   {''envA'', ''envB''} [''envA'' \<mapsto> [''/envA/ok'', ''/envB/secret1'']])).
        v_instance_id v = ''i-1'' \<and> v_profile_arn v = ''r1'' \<and> v_environment_id v = ''envA'')
   \<and> exploited (correlate [(''i-1'', (''r1'', ''envA'')), (''i-2'', (''r2'', ''envB''))]
                   {''envA'', ''envB''} [''envA'' \<mapsto> [''/envA/ok'', ''/envB/secret1'']])"
proof -
  let ?D = "[(''i-1'', (''r1'', ''envA'')), (''i-2'', (''r2'', ''envB''))]"
  have E: "environment_ids_of ?D = {''envA'', ''envB''}"
    by (simp add: environment_ids_of_def)
  from correlate_flags_exactly
    [of ?D "[''envA'' \<mapsto> [''/envA/ok'', ''/envB/secret1'']]" "''i-1''" "''r1''" "''envA''"]
  show ?thesis
    unfolding E by (simp add: scenario_2_flags sublist_Cons_right)
qed




section \<open>The launch facts\<close>









lemma as_str_Some: "(as_str j = Some s) = (j = JStr s)"
  by (cases j) auto

lemma store_instance_Inr:
  assumes "store_instance (ji, jp, je) D = Inr D'"
  shows "\<exists>i p e. ji = JStr i \<and> jp = JStr p \<and> je = JStr e \<and> D' = AList.update i (p, e) D"
proof (cases ji)
  case i: (JStr i)
  show ?thesis
  proof (cases jp)
    case p: (JStr p)
    show ?thesis
    proof (cases je)
      case (JStr e)
      with i p assms show ?thesis by simp
    qed (use i p assms in simp_all)
  qed (use i assms in simp_all)
qed (use assms in simp_all)

lemma store_instance_Inl:
  assumes "store_instance f D = Inl x"
  shows "x = TypeError \<or> x = NotAStr"
  using assms by (cases "(f, D)" rule: store_instance.cases) simp_all

lemma run_instances_step:
  assumes "except_continue run_instances_body ev D = Inr D'"
  shows "D' = store_fact (launch_fact ev) D"
proof (cases ev)
  case NoBody
  with assms show ?thesis
    by (simp add: except_continue_def run_instances_body_def launch_fact_def store_fact_def)
next
  case BadBody
  with assms show ?thesis
    by (simp add: except_continue_def run_instances_body_def launch_fact_def store_fact_def)
next
  case (Body b)
  show ?thesis
  proof (cases "run_instances_fields b")
    case (Inl x)
    with Body assms show ?thesis
      by (cases x)
        (simp_all add: except_continue_def run_instances_body_def launch_fact_def store_fact_def)
  next
    case (Inr fields)
    show ?thesis
    proof (cases fields)
      case None
      with Body Inr assms show ?thesis
        by (simp add: except_continue_def run_instances_body_def launch_fact_def store_fact_def)
    next
      case (Some f)
      obtain ji jp je where f: "f = (ji, jp, je)" by (cases f) auto
      have body: "run_instances_body ev D = store_instance (ji, jp, je) D"
        using Body Inr Some f by (simp add: run_instances_body_def)
      show ?thesis
      proof (cases "store_instance (ji, jp, je) D")
        case (Inl x)
        with store_instance_Inl [OF Inl] body assms show ?thesis
          by (auto simp: except_continue_def)
      next
        case stored: (Inr D'')
        with body assms have "D'' = D'" by (simp add: except_continue_def)
        with store_instance_Inr [OF stored] Body Inr Some f show ?thesis
          by (auto simp: launch_fact_def store_fact_def)
      qed
    qed
  qed
qed

lemma launch_fact_step:
  assumes "launch_fact ev = Some f"
  shows "except_continue run_instances_body ev D = Inr (store_fact (Some f) D)"
proof -
  from assms obtain b where ev: "ev = Body b"
    by (cases ev) (simp_all add: launch_fact_def)
  from assms ev obtain g where g: "run_instances_fields b = Inr (Some g)"
    by (auto simp: launch_fact_def split: sum.splits option.splits)
  obtain ji jp je where gt: "g = (ji, jp, je)" by (cases g) auto
  obtain i p e where f: "f = (i, p, e)" by (cases f) auto
  from assms ev g gt f have "ji = JStr i" "jp = JStr p" "je = JStr e"
    by (auto simp: launch_fact_def as_str_Some split: Option.bind_splits)
  with ev g gt f show ?thesis
    by (simp add: except_continue_def run_instances_body_def store_fact_def)
qed



lemma extract_fold:
  assumes "for_events run_instances_body events D = Inr D'"
  shows "D' = fold (\<lambda>ev. store_fact (launch_fact ev)) events D"
  using assms
proof (induction events arbitrary: D)
  case Nil
  then show ?case by simp
next
  case (Cons ev events)
  from Cons.prems obtain D1 where D1: "except_continue run_instances_body ev D = Inr D1"
    and rest: "for_events run_instances_body events D1 = Inr D'"
    by (cases "except_continue run_instances_body ev D") simp_all
  from run_instances_step [OF D1] Cons.IH [OF rest] show ?case by simp
qed



lemma fold_store_distinct:
  assumes "distinct (map fst D)"
  shows "distinct (map fst (fold (\<lambda>ev. store_fact (launch_fact ev)) events D))"
  using assms
proof (induction events arbitrary: D)
  case Nil
  then show ?case by simp
next
  case (Cons ev events)
  have "distinct (map fst (store_fact (launch_fact ev) D))"
    using Cons.prems by (cases "launch_fact ev") (simp_all add: store_fact_def distinct_update)
  from Cons.IH [OF this] show ?case by simp
qed

lemma fold_store_other:
  assumes "\<forall>ev \<in> set events. map_option fst (launch_fact ev) \<noteq> Some i"
  shows "map_of (fold (\<lambda>ev. store_fact (launch_fact ev)) events D) i = map_of D i"
  using assms
proof (induction events arbitrary: D)
  case Nil
  then show ?case by simp
next
  case (Cons ev events)
  have "map_of (store_fact (launch_fact ev) D) i = map_of D i"
    using Cons.prems by (cases "launch_fact ev") (auto simp: store_fact_def update_conv')
  with Cons.IH [of "store_fact (launch_fact ev) D"] Cons.prems show ?case by simp
qed

lemma distinct_key_entries:
  assumes "distinct (map fst D)" and "map_of D k = Some v"
  shows "filter (\<lambda>kv. fst kv = k) D = [(k, v)]"
  using assms
proof (induction D)
  case Nil
  then show ?case by simp
next
  case (Cons kv D)
  show ?case
  proof (cases "fst kv = k")
    case True
    with Cons.prems have "kv = (k, v)" by (cases kv) simp
    moreover have "filter (\<lambda>kv. fst kv = k) D = []"
    proof -
      from True Cons.prems(1) have "k \<notin> fst ` set D" by simp
      then have "\<forall>kv' \<in> set D. fst kv' \<noteq> k" by (auto simp: image_iff)
      then show ?thesis by (simp add: filter_empty_conv)
    qed
    ultimately show ?thesis by simp
  next
    case False
    with Cons show ?thesis by (cases kv) auto
  qed
qed

lemma instance_item_fields:
  assumes "i \<noteq> []" and "arn \<noteq> []" and "env \<noteq> []"
  shows "run_instances_fields (launch_body name (instance_item i arn env))
         = Inr (Some (JStr i, JStr arn, JStr env))"
  using assms
  by (simp add: run_instances_fields_def launch_body_def instance_item_def py_get_def
      ENVIRONMENT_TAG_def)

lemma launch_fact_record:
  assumes "i \<noteq> []" and "arn \<noteq> []" and "env \<noteq> []"
  shows "launch_fact (launch_record name (instance_item i arn env)) = Some (i, arn, env)"
  using instance_item_fields [OF assms]
  by (simp add: launch_fact_def launch_record_def)

lemma extract_Nil [simp]: "extract_run_instances_data [] = Inr []"
  by (simp add: extract_run_instances_data_def)

lemma extract_snoc_fact:
  assumes "extract_run_instances_data events = Inr D" and "launch_fact ev = Some f"
  shows "extract_run_instances_data (events @ [ev]) = Inr (AList.update (fst f) (snd f) D)"
  using assms launch_fact_step [OF assms(2), of D]
  by (simp add: extract_run_instances_data_def for_events_snoc store_fact_def)

lemma extract_one_record:
  assumes "i \<noteq> []" and "arn \<noteq> []" and "env \<noteq> []"
  shows "extract_run_instances_data [launch_record name (instance_item i arn env)]
           = Inr [(i, (arn, env))]"
  using extract_snoc_fact [OF extract_Nil launch_fact_record [OF assms]]
  by simp






text \<open>
  C7. When two records yield a fact for the same \<^verbatim>\<open>instanceId\<close> and no later record does,
  the returned mapping has exactly one entry for that \<^verbatim>\<open>instanceId\<close>, which is the fact of
  the later of the two; and no \<^verbatim>\<open>instanceId\<close> has two entries.
\<close>

theorem launch_last_record_wins:
  assumes "launch_fact ev1 = Some (i, p1, e1)"
    and "launch_fact ev2 = Some (i, p2, e2)"
    and "\<forall>ev \<in> set zs. map_option fst (launch_fact ev) \<noteq> Some i"
    and "extract_run_instances_data (xs @ ev1 # ys @ ev2 # zs) = Inr D"
  shows "distinct (map fst D) \<and> filter (\<lambda>kv. fst kv = i) D = [(i, (p2, e2))]"
proof -
  let ?step = "\<lambda>ev. store_fact (launch_fact ev)"
  from assms(4) have "for_events run_instances_body (xs @ ev1 # ys @ ev2 # zs) [] = Inr D"
    by (simp add: extract_run_instances_data_def)
  then have D: "D = fold ?step (xs @ ev1 # ys @ ev2 # zs) []"
    by (rule extract_fold)
  have dist: "distinct (map fst D)"
    unfolding D by (rule fold_store_distinct) simp
  let ?D2 = "?step ev2 (fold ?step (xs @ ev1 # ys) [])"
  have "D = fold ?step zs ?D2"
    unfolding D by simp
  then have "map_of D i = map_of ?D2 i"
    using fold_store_other [OF assms(3)] by simp
  also have "\<dots> = Some (p2, e2)"
    using assms(2) by (simp add: store_fact_def update_conv')
  finally have "map_of D i = Some (p2, e2)" .
  from distinct_key_entries [OF dist this] dist show ?thesis by simp
qed

theorem launch_last_record_wins_witness:
  "extract_run_instances_data
     ([] @ launch_record ''RunInstances'' (instance_item ''i-1'' ''arn:r1'' ''envA'')
         # [] @ launch_record ''RunInstances'' (instance_item ''i-1'' ''arn:r2'' ''envB'')
         # []) = Inr [(''i-1'', (''arn:r2'', ''envB''))]
   \<and> filter (\<lambda>kv. fst kv = ''i-1'') [(''i-1'', (''arn:r2'', ''envB''))]
       = [(''i-1'', (''arn:r2'', ''envB''))]"
proof -
  let ?ev1 = "launch_record ''RunInstances'' (instance_item ''i-1'' ''arn:r1'' ''envA'')"
  let ?ev2 = "launch_record ''RunInstances'' (instance_item ''i-1'' ''arn:r2'' ''envB'')"
  have f1: "launch_fact ?ev1 = Some (''i-1'', ''arn:r1'', ''envA'')"
    by (rule launch_fact_record) simp_all
  have f2: "launch_fact ?ev2 = Some (''i-1'', ''arn:r2'', ''envB'')"
    by (rule launch_fact_record) simp_all
  have "extract_run_instances_data ([] @ [?ev1]) = Inr [(''i-1'', (''arn:r1'', ''envA''))]"
    using extract_snoc_fact [OF extract_Nil f1] by simp
  from extract_snoc_fact [OF this f2]
  have run: "extract_run_instances_data ([] @ ?ev1 # [] @ ?ev2 # [])
               = Inr [(''i-1'', (''arn:r2'', ''envB''))]"
    by simp
  have none: "\<forall>ev \<in> set []. map_option fst (launch_fact ev) \<noteq> Some ''i-1''"
    by simp
  from launch_last_record_wins [OF f1 f2 none run] run show ?thesis
    by (simp only: simp_thms)
qed

section \<open>Filtering by event name\<close>

lemma assume_role_body_other_name:
  assumes "py_item b ''eventName'' = Inr name" and "name \<noteq> JStr ''AssumeRole''"
  shows "assume_role_body profile_arns (Body b) assume_role_data = Inr assume_role_data"
  using assms by (simp add: assume_role_body_def)

lemma get_parameter_body_other_name:
  assumes "py_item b ''eventName'' = Inr name" and "name \<noteq> JStr ''GetParameter''"
  shows "get_parameter_body environment_ids (Body b) parameter_data = Inr parameter_data"
  using assms by (simp add: get_parameter_body_def)

text \<open>
  C3. The assumption and the secret-access extractor compare \<^verbatim>\<open>eventName\<close> and pass over a
  record of another name. \<^verbatim>\<open>extract_run_instances_data\<close> never reads \<^verbatim>\<open>eventName\<close>: a
  record named \<^verbatim>\<open>TerminateInstances\<close> that carries an instance item yields a launch fact.
\<close>

theorem launch_extractor_ignores_event_name:
  "extract_run_instances_data
     [launch_record ''TerminateInstances'' (instance_item ''i-1'' ''arn:r1'' ''envA'')]
     = Inr [(''i-1'', (''arn:r1'', ''envA''))]"
  by (rule extract_one_record) simp_all

section \<open>The whole run\<close>

lemma load_event_files [simp]:
  "load_json_file (event_files r a g) RUN_INSTANCES_FILE = Inr r"
  "load_json_file (event_files r a g) ASSUME_ROLE_FILE = Inr a"
  "load_json_file (event_files r a g) GET_PARAMETER_FILE = Inr g"
  by (simp_all add: load_json_file_def event_files_def RUN_INSTANCES_FILE_def
      ASSUME_ROLE_FILE_def GET_PARAMETER_FILE_def)




lemma find_assume_role_events_Nil [simp]: "find_assume_role_events [] A = Inr []"
  by (simp add: find_assume_role_events_def)



lemma extract_two_records:
  "extract_run_instances_data
     [launch_record ''RunInstances'' (instance_item ''i-1'' ''arn:r1'' ''envA''),
      launch_record ''RunInstances'' (instance_item ''i-2'' ''arn:r2'' ''envB'')]
   = Inr [(''i-1'', (''arn:r1'', ''envA'')), (''i-2'', (''arn:r2'', ''envB''))]"
proof -
  have one: "extract_run_instances_data
      [launch_record ''RunInstances'' (instance_item ''i-1'' ''arn:r1'' ''envA'')]
    = Inr [(''i-1'', (''arn:r1'', ''envA''))]"
    by (rule extract_one_record) simp_all
  have two: "launch_fact (launch_record ''RunInstances'' (instance_item ''i-2'' ''arn:r2'' ''envB''))
    = Some (''i-2'', ''arn:r2'', ''envB'')"
    by (rule launch_fact_record) simp_all
  from extract_snoc_fact [OF one two] show ?thesis by simp
qed








end
